theory Spec2Isabelle
  imports Main "HOL-Library.Sublist"
begin

section \<open>Python strings\<close>

text \<open>
  A Python \<open>str\<close> is a sequence of Unicode code points. It is modelled as a list of
  natural numbers, one per code point, so that \<open>length\<close> counts what Python's \<open>len\<close>
  counts and the non-ASCII white space of \<open>str.split\<close> and \<open>str.strip\<close> is a single
  character. \<open>lit\<close> turns an (ASCII) literal of the source into such a list.
\<close>

type_synonym str = "nat list"

definition lit :: "string \<Rightarrow> str" where
  "lit s = map of_char s"

text \<open>
  The characters for which \<open>str.isspace\<close> holds, which are the separators of
  \<open>str.split()\<close> and the characters removed by \<open>str.strip()\<close> without argument
  (CPython's \<open>_PyUnicode_IsWhitespace\<close>): U+0009..U+000D, U+001C..U+0020, U+0085,
  U+00A0, U+1680, U+2000..U+200A, U+2028, U+2029, U+202F, U+205F, U+3000.
\<close>

definition is_space :: "nat \<Rightarrow> bool" where
  "is_space c \<longleftrightarrow>
     (0x09 \<le> c \<and> c \<le> 0x0D) \<or> (0x1C \<le> c \<and> c \<le> 0x20) \<or> c = 0x85 \<or> c = 0xA0 \<or>
     c = 0x1680 \<or> (0x2000 \<le> c \<and> c \<le> 0x200A) \<or> c = 0x2028 \<or> c = 0x2029 \<or>
     c = 0x202F \<or> c = 0x205F \<or> c = 0x3000"

text \<open>
  \<open>text.split()\<close>: the maximal runs of non-white-space characters, in order. The first
  argument of \<open>split_from\<close> is the word read so far.
\<close>

fun split_from :: "str \<Rightarrow> str \<Rightarrow> str list" where
  "split_from cur [] = (if cur = [] then [] else [cur])"
| "split_from cur (c # cs) =
     (if is_space c then (if cur = [] then split_from [] cs else cur # split_from [] cs)
      else split_from (cur @ [c]) cs)"

definition str_split :: "str \<Rightarrow> str list" where
  "str_split text = split_from [] text"

text \<open>\<open>sep.join(words)\<close>.\<close>

fun str_join :: "str \<Rightarrow> str list \<Rightarrow> str" where
  "str_join sep [] = []"
| "str_join sep [w] = w"
| "str_join sep (w # v # ws) = w @ sep @ str_join sep (v # ws)"

text \<open>
  \<open>s.lstrip(chars)\<close>, \<open>s.rstrip(chars)\<close> and \<open>s.strip(chars)\<close> remove, from the left
  end, the right end or both, the longest run of characters that belong to \<open>chars\<close>;
  \<open>s.strip()\<close> removes white space.
\<close>

definition str_lstrip_chars :: "str \<Rightarrow> str \<Rightarrow> str" where
  "str_lstrip_chars chars s = dropWhile (\<lambda>c. c \<in> set chars) s"

definition str_rstrip_chars :: "str \<Rightarrow> str \<Rightarrow> str" where
  "str_rstrip_chars chars s = rev (dropWhile (\<lambda>c. c \<in> set chars) (rev s))"

definition str_strip_chars :: "str \<Rightarrow> str \<Rightarrow> str" where
  "str_strip_chars chars s = str_rstrip_chars chars (str_lstrip_chars chars s)"

definition str_strip :: "str \<Rightarrow> str" where
  "str_strip s = rev (dropWhile is_space (rev (dropWhile is_space s)))"

text \<open>\<open>sub in s\<close> on strings: \<open>sub\<close> occurs in \<open>s\<close> as a contiguous block.\<close>

fun str_contains :: "str \<Rightarrow> str \<Rightarrow> bool" where
  "str_contains sub [] = (sub = [])"
| "str_contains sub (c # cs) = (prefix sub (c # cs) \<or> str_contains sub cs)"

text \<open>\<open>s.replace(old, new)\<close> for single characters \<open>old\<close> and \<open>new\<close>.\<close>

definition str_replace_char :: "nat \<Rightarrow> nat \<Rightarrow> str \<Rightarrow> str" where
  "str_replace_char old new s = map (\<lambda>c. if c = old then new else c) s"


section \<open>The claim extractor\<close>

text \<open>
  \<^verbatim>\<open>
  def extract_main_claim(text: str) -> str:
      words = text.split()
      claim = " ".join(words[:8]) if len(words) >= 3 else text
      return claim.strip(" .,")
  \<close>
\<close>

definition extract_main_claim :: "str \<Rightarrow> str" where
  "extract_main_claim text =
     (let words = str_split text;
          claim = (if length words \<ge> 3 then str_join (lit '' '') (take 8 words) else text)
      in str_strip_chars (lit '' .,'') claim)"


section \<open>Python values and exceptions\<close>

text \<open>
  The values that \<open>resp.json()\<close> can return, and so the values the handlers compute
  with: Python is dynamically typed, and a field of a decoded payload may hold any of
  them. A float is a mantissa and a binary exponent, an infinity or a NaN; only whether
  it is zero matters below. A dict is the list of its items.
\<close>

datatype pyfloat = Float int int | Infinity bool | NaN

datatype pyval =
    PNone
  | PBool bool
  | PInt int
  | PFloat pyfloat
  | PStr str
  | PList "pyval list"
  | PDict "(str \<times> pyval) list"

text \<open>The truth value of \<open>if v:\<close>.\<close>

fun truthy :: "pyval \<Rightarrow> bool" where
  "truthy PNone = False"
| "truthy (PBool b) = b"
| "truthy (PInt i) = (i \<noteq> 0)"
| "truthy (PFloat (Float m e)) = (m \<noteq> 0)"
| "truthy (PFloat f) = True"
| "truthy (PStr s) = (s \<noteq> [])"
| "truthy (PList xs) = (xs \<noteq> [])"
| "truthy (PDict kvs) = (kvs \<noteq> [])"

text \<open>\<open>type(v).__name__\<close>, as it appears in the messages of the interpreter's errors.\<close>

fun type_name :: "pyval \<Rightarrow> str" where
  "type_name PNone = lit ''NoneType''"
| "type_name (PBool b) = lit ''bool''"
| "type_name (PInt i) = lit ''int''"
| "type_name (PFloat f) = lit ''float''"
| "type_name (PStr s) = lit ''str''"
| "type_name (PList xs) = lit ''list''"
| "type_name (PDict kvs) = lit ''dict''"

text \<open>
  An exception (an instance of a subclass of \<open>Exception\<close>): the name of its class and
  the text \<open>str(e)\<close>. A computation that may raise returns \<open>Inl e\<close> when it raises \<open>e\<close>
  and \<open>Inr v\<close> when it returns \<open>v\<close>.
\<close>

datatype exn = Exn (exn_class: string) (exn_str: str)

definition quoted :: "str \<Rightarrow> str" where
  "quoted s = [0x27] @ s @ [0x27]"

definition newline :: str where
  "newline = [0x0A]"

text \<open>\<open>obj.get(key, default)\<close>: only a dict has the method.\<close>

fun py_get :: "pyval \<Rightarrow> str \<Rightarrow> pyval \<Rightarrow> exn + pyval" where
  "py_get (PDict kvs) key dflt =
     Inr (case map_of kvs key of Some v \<Rightarrow> v | None \<Rightarrow> dflt)"
| "py_get obj key dflt =
     Inl (Exn ''AttributeError''
       (quoted (type_name obj) @ lit '' object has no attribute '' @ quoted (lit ''get'')))"

text \<open>
  \<open>key in obj\<close> for a string \<open>key\<close>: a key of a dict, an element of a list, a substring
  of a string; the other values are no containers.
\<close>

fun py_in :: "str \<Rightarrow> pyval \<Rightarrow> exn + bool" where
  "py_in key (PDict kvs) = Inr (key \<in> set (map fst kvs))"
| "py_in key (PList xs) = Inr (PStr key \<in> set xs)"
| "py_in key (PStr s) = Inr (str_contains key s)"
| "py_in key obj =
     Inl (Exn ''TypeError''
       (lit ''argument of type '' @ quoted (type_name obj) @ lit '' is not iterable''))"

text \<open>\<open>obj[key]\<close> for a string \<open>key\<close>.\<close>

fun py_getitem :: "pyval \<Rightarrow> str \<Rightarrow> exn + pyval" where
  "py_getitem (PDict kvs) key =
     (case map_of kvs key of Some v \<Rightarrow> Inr v | None \<Rightarrow> Inl (Exn ''KeyError'' (quoted key)))"
| "py_getitem (PList xs) key =
     Inl (Exn ''TypeError'' (lit ''list indices must be integers or slices, not str''))"
| "py_getitem (PStr s) key =
     Inl (Exn ''TypeError'' (lit ''string indices must be integers, not '' @ quoted (lit ''str'')))"
| "py_getitem obj key =
     Inl (Exn ''TypeError'' (quoted (type_name obj) @ lit '' object is not subscriptable''))"

text \<open>
  The elements that \<open>for x in obj\<close> runs through: the elements of a list, the keys of a
  dict, the characters of a string.
\<close>

fun py_iter :: "pyval \<Rightarrow> exn + pyval list" where
  "py_iter (PList xs) = Inr xs"
| "py_iter (PDict kvs) = Inr (map (\<lambda>kv. PStr (fst kv)) kvs)"
| "py_iter (PStr s) = Inr (map (\<lambda>c. PStr [c]) s)"
| "py_iter obj =
     Inl (Exn ''TypeError'' (quoted (type_name obj) @ lit '' object is not iterable''))"

text \<open>
  \<open>f"{v}"\<close>: a string is inserted as it is. The text of any other value is that of the
  built-in \<open>format\<close>, which is not part of this program: it is the parameter \<open>fmt\<close>.
\<close>

definition py_format :: "(pyval \<Rightarrow> str) \<Rightarrow> pyval \<Rightarrow> str" where
  "py_format fmt v = (case v of PStr s \<Rightarrow> s | _ \<Rightarrow> fmt v)"

text \<open>The decimal digits of a natural number.\<close>

fun decimal :: "nat \<Rightarrow> str" where
  "decimal n = (if n < 10 then [0x30 + n] else decimal (n div 10) @ [0x30 + n mod 10])"

text \<open>
  \<open>sep.join(items)\<close> on Python values: every item must be a string; the first one that
  is not raises \<open>TypeError\<close>, with its position in the message.
\<close>

fun join_items :: "nat \<Rightarrow> pyval list \<Rightarrow> exn + str list" where
  "join_items i [] = Inr []"
| "join_items i (PStr s # items) =
     (case join_items (Suc i) items of Inl e \<Rightarrow> Inl e | Inr ss \<Rightarrow> Inr (s # ss))"
| "join_items i (v # items) =
     Inl (Exn ''TypeError''
       (lit ''sequence item '' @ decimal i @ lit '': expected str instance, '' @
        type_name v @ lit '' found''))"

definition py_join :: "str \<Rightarrow> pyval list \<Rightarrow> exn + str" where
  "py_join sep items =
     (case join_items 0 items of Inl e \<Rightarrow> Inl e | Inr ss \<Rightarrow> Inr (str_join sep ss))"


section \<open>The outside world\<close>

text \<open>
  What the program does not compute is a parameter of the model. \<open>requests_get url\<close>
  is the outcome of \<open>requests.get(url, timeout=5)\<close>: an exception (a timeout, a
  network error, an invalid URL) or a response, which has a status code and a body;
  \<open>json_body\<close> is the outcome of \<open>resp.json()\<close>, an exception when the body is not
  JSON and the decoded value otherwise. \<open>chat_completions_create n model messages\<close>
  is the outcome of \<open>client.chat.completions.create(model=..., messages=...)\<close> when
  the request has called the endpoint \<open>n\<close> times before: an exception or the list
  \<open>result.choices\<close>, each choice given by its \<open>message.content\<close>, a string or
  \<open>None\<close>. The endpoint is not a function of its arguments: a second call may succeed
  where the first one failed. The two API keys are read from the environment when the
  module is loaded.
\<close>

datatype response = Response (status_code: int) (json_body: "exn + pyval")

record env =
  requests_get :: "str \<Rightarrow> exn + response"
  chat_completions_create :: "nat \<Rightarrow> str \<Rightarrow> (str \<times> str) list \<Rightarrow> exn + str option list"
  NEWS_API_KEY :: str
  GNEWS_API_KEY :: str
  format_value :: "pyval \<Rightarrow> str"


section \<open>The evidence fetchers\<close>

text \<open>
  \<^verbatim>\<open>
  def fetch_wikipedia_summary(query: str) -> str:
      url = f"https://en.wikipedia.org/api/rest_v1/page/summary/{query.replace(' ', '_')}"
      try:
          resp = requests.get(url, timeout=5)
          if resp.status_code == 200:
              data = resp.json()
              return data.get("extract", "")
      except Exception:
          pass
      return ""
  \<close>
  The body of each \<open>try\<close> is a function of its own: \<open>Inl e\<close> when it raises \<open>e\<close>,
  \<open>Inr (Some v)\<close> when it returns \<open>v\<close>, \<open>Inr None\<close> when it runs to its end without
  returning. The fetcher wraps it as the \<open>except Exception: pass\<close> and the final
  \<open>return ""\<close> do.
\<close>

definition wikipedia_try :: "env \<Rightarrow> str \<Rightarrow> exn + pyval option" where
  "wikipedia_try env url =
     (case requests_get env url of
        Inl e \<Rightarrow> Inl e
      | Inr resp \<Rightarrow>
          if status_code resp = 200 then
            (case json_body resp of
               Inl e \<Rightarrow> Inl e
             | Inr data \<Rightarrow>
                 (case py_get data (lit ''extract'') (PStr []) of
                    Inl e \<Rightarrow> Inl e
                  | Inr extract \<Rightarrow> Inr (Some extract)))
          else Inr None)"

definition fetch_wikipedia_summary :: "env \<Rightarrow> str \<Rightarrow> exn + pyval" where
  "fetch_wikipedia_summary env query =
     (let url = lit ''https://en.wikipedia.org/api/rest_v1/page/summary/'' @
                str_replace_char 0x20 0x5F query
      in case wikipedia_try env url of
           Inl e \<Rightarrow> Inr (PStr [])
         | Inr (Some v) \<Rightarrow> Inr v
         | Inr None \<Rightarrow> Inr (PStr []))"

text \<open>
  The loop of both news fetchers:
  \<^verbatim>\<open>
  snippets = []
  for article in articles:
      title = article.get("title", "")
      desc = article.get("description", "")
      snippets.append(f"{title}: {desc}")
  \<close>
\<close>

fun snippets :: "(pyval \<Rightarrow> str) \<Rightarrow> pyval list \<Rightarrow> exn + str list" where
  "snippets fmt [] = Inr []"
| "snippets fmt (article # articles) =
     (case py_get article (lit ''title'') (PStr []) of
        Inl e \<Rightarrow> Inl e
      | Inr title \<Rightarrow>
          (case py_get article (lit ''description'') (PStr []) of
             Inl e \<Rightarrow> Inl e
           | Inr desc \<Rightarrow>
               (case snippets fmt articles of
                  Inl e \<Rightarrow> Inl e
                | Inr rest \<Rightarrow> Inr ((py_format fmt title @ lit '': '' @ py_format fmt desc) # rest))))"

text \<open>
  \<^verbatim>\<open>
  def fetch_newsapi_headlines(query: str) -> str:
      url = f"https://newsapi.org/v2/everything?q={query}&language=en&pageSize=3&apiKey={NEWS_API_KEY}"
      try:
          resp = requests.get(url, timeout=5)
          if resp.status_code == 200:
              data = resp.json()
              if "articles" in data and data["articles"]:
                  snippets = []
                  for article in data["articles"]: ...
                  return "\n".join(snippets)
      except Exception:
          pass
      return ""
  \<close>
\<close>

definition newsapi_try :: "env \<Rightarrow> str \<Rightarrow> exn + str option" where
  "newsapi_try env url =
     (case requests_get env url of
        Inl e \<Rightarrow> Inl e
      | Inr resp \<Rightarrow>
          if status_code resp = 200 then
            (case json_body resp of
               Inl e \<Rightarrow> Inl e
             | Inr data \<Rightarrow>
                 (case py_in (lit ''articles'') data of
                    Inl e \<Rightarrow> Inl e
                  | Inr present \<Rightarrow>
                      if present then
                        (case py_getitem data (lit ''articles'') of
                           Inl e \<Rightarrow> Inl e
                         | Inr articles \<Rightarrow>
                             if truthy articles then
                               (case py_iter articles of
                                  Inl e \<Rightarrow> Inl e
                                | Inr items \<Rightarrow>
                                    (case snippets (format_value env) items of
                                       Inl e \<Rightarrow> Inl e
                                     | Inr ss \<Rightarrow> Inr (Some (str_join newline ss))))
                             else Inr None)
                      else Inr None))
          else Inr None)"

definition fetch_newsapi_headlines :: "env \<Rightarrow> str \<Rightarrow> exn + pyval" where
  "fetch_newsapi_headlines env query =
     (let url = lit ''https://newsapi.org/v2/everything?q='' @ query @
                lit ''&language=en&pageSize=3&apiKey='' @ NEWS_API_KEY env
      in case newsapi_try env url of
           Inl e \<Rightarrow> Inr (PStr [])
         | Inr (Some s) \<Rightarrow> Inr (PStr s)
         | Inr None \<Rightarrow> Inr (PStr []))"

text \<open>
  \<^verbatim>\<open>
  def fetch_gnews_headlines(query: str) -> str:
      url = f"https://gnews.io/api/v4/search?q={query}&lang=en&max=3&token={GNEWS_API_KEY}"
      try:
          resp = requests.get(url, timeout=5)
          if resp.status_code == 200:
              data = resp.json()
              articles = data.get("articles", [])
              snippets = []
              for art in articles: ...
              return "\n".join(snippets)
      except Exception:
          pass
      return ""
  \<close>
\<close>

definition gnews_try :: "env \<Rightarrow> str \<Rightarrow> exn + str option" where
  "gnews_try env url =
     (case requests_get env url of
        Inl e \<Rightarrow> Inl e
      | Inr resp \<Rightarrow>
          if status_code resp = 200 then
            (case json_body resp of
               Inl e \<Rightarrow> Inl e
             | Inr data \<Rightarrow>
                 (case py_get data (lit ''articles'') (PList []) of
                    Inl e \<Rightarrow> Inl e
                  | Inr articles \<Rightarrow>
                      (case py_iter articles of
                         Inl e \<Rightarrow> Inl e
                       | Inr items \<Rightarrow>
                           (case snippets (format_value env) items of
                              Inl e \<Rightarrow> Inl e
                            | Inr ss \<Rightarrow> Inr (Some (str_join newline ss))))))
          else Inr None)"

definition fetch_gnews_headlines :: "env \<Rightarrow> str \<Rightarrow> exn + pyval" where
  "fetch_gnews_headlines env query =
     (let url = lit ''https://gnews.io/api/v4/search?q='' @ query @
                lit ''&lang=en&max=3&token='' @ GNEWS_API_KEY env
      in case gnews_try env url of
           Inl e \<Rightarrow> Inr (PStr [])
         | Inr (Some s) \<Rightarrow> Inr (PStr s)
         | Inr None \<Rightarrow> Inr (PStr []))"

text \<open>
  \<^verbatim>\<open>
  def fetch_factchecker_rss(query: str) -> str:
      return ""
  \<close>
\<close>

definition fetch_factchecker_rss :: "str \<Rightarrow> exn + pyval" where
  "fetch_factchecker_rss query = Inr (PStr [])"


section \<open>The prediction route\<close>

text \<open>
  Evidence aggregation, lines 159 to 163 of the handler:
  \<^verbatim>\<open>
  all_evidence_parts = [wiki_summary, newsapi_snippets, gnews_snippets, factchecker_snippets]
  all_evidence = "\n".join(part for part in all_evidence_parts if part).strip()
  if not all_evidence:
      all_evidence = "No relevant evidence found in Wikipedia, news, or fact-checking sources."
  \<close>
\<close>

definition no_evidence :: str where
  "no_evidence = lit ''No relevant evidence found in Wikipedia, news, or fact-checking sources.''"

definition aggregate_evidence :: "pyval list \<Rightarrow> exn + str" where
  "aggregate_evidence all_evidence_parts =
     (case py_join newline (filter truthy all_evidence_parts) of
        Inl e \<Rightarrow> Inl e
      | Inr joined \<Rightarrow>
          (let all_evidence = str_strip joined
           in Inr (if all_evidence = [] then no_evidence else all_evidence)))"

text \<open>The system prompt, lines 166 to 177.\<close>

definition system_prompt :: "str \<Rightarrow> str \<Rightarrow> str" where
  "system_prompt message all_evidence =
     lit ''You are a professional fake news detection assistant. '' @
     lit ''Analyze the user'' @ [0x27] @ lit ''s statement and evidence from MULTIPLE sources below. '' @
     lit ''Base your conclusion on both external evidence and your internal knowledge.'' @ newline @
     lit ''Reply in steps:'' @ newline @
     lit ''Step 1: Restate the main claim.'' @ newline @
     lit ''Step 2: Compare it with evidence from Wikipedia and news sources.'' @ newline @
     lit ''Step 3: Classify as FAKE, REAL, or UNCERTAIN, and provide a one-line, evidence-based reason.'' @ newline @
     lit ''If evidence is insufficient or ambiguous, reply UNCERTAIN.'' @ newline @
     lit ''User'' @ [0x27] @ lit ''s message: '' @ message @ newline @
     lit ''Multi-source evidence: '' @ all_evidence"

text \<open>
  The check of the reply, lines 192 to 197:
  \<^verbatim>\<open>
  if not any(label in response for label in ["FAKE", "REAL", "UNCERTAIN"]):
      response = ("UNCERTAIN: Model could not confidently classify based on current evidence. "
                  "Please try a different claim.")
  \<close>
\<close>

definition labels :: "str list" where
  "labels = [lit ''FAKE'', lit ''REAL'', lit ''UNCERTAIN'']"

definition has_label :: "str \<Rightarrow> bool" where
  "has_label response = list_ex (\<lambda>label. str_contains label response) labels"

definition fallback_response :: str where
  "fallback_response =
     lit ''UNCERTAIN: Model could not confidently classify based on current evidence. '' @
     lit ''Please try a different claim.''"

definition validate_response :: "str \<Rightarrow> str" where
  "validate_response response = (if \<not> has_label response then fallback_response else response)"

text \<open>
  \<open>result.choices[0].message.content.strip()\<close>, line 189: an empty list of choices
  raises \<open>IndexError\<close>, a content that is \<open>None\<close> raises \<open>AttributeError\<close>.
\<close>

definition first_content :: "str option list \<Rightarrow> exn + str" where
  "first_content choices =
     (case choices of
        [] \<Rightarrow> Inl (Exn ''IndexError'' (lit ''list index out of range''))
      | content # _ \<Rightarrow>
          (case content of
             None \<Rightarrow>
               Inl (Exn ''AttributeError''
                 (quoted (lit ''NoneType'') @ lit '' object has no attribute '' @ quoted (lit ''strip'')))
           | Some text \<Rightarrow> Inr (str_strip text)))"

definition model_id :: str where
  "model_id = lit ''mistralai/Mixtral-8x7B-Instruct-v0.1''"

text \<open>
  The evidence of a message, lines 150 to 163: the claim, the four fetchers in their
  fixed order, the aggregation.
\<close>

definition gather_evidence :: "env \<Rightarrow> str \<Rightarrow> exn + str" where
  "gather_evidence env message =
     (let claim = extract_main_claim message
      in case fetch_wikipedia_summary env claim of
           Inl e \<Rightarrow> Inl e
         | Inr wiki_summary \<Rightarrow>
        (case fetch_newsapi_headlines env claim of
           Inl e \<Rightarrow> Inl e
         | Inr newsapi_snippets \<Rightarrow>
        (case fetch_gnews_headlines env claim of
           Inl e \<Rightarrow> Inl e
         | Inr gnews_snippets \<Rightarrow>
        (case fetch_factchecker_rss claim of
           Inl e \<Rightarrow> Inl e
         | Inr factchecker_snippets \<Rightarrow>
             aggregate_evidence
               [wiki_summary, newsapi_snippets, gnews_snippets, factchecker_snippets]))))"

text \<open>
  The body of the handler's \<open>try\<close>, lines 150 to 198, run from its first line to the
  point where it raises or returns. The first component is its outcome, the exception
  raised or the string \<open>response\<close> of the dict \<open>{"response": response}\<close> that the
  handler returns; the second is the number of calls of the inference endpoint that the
  run has made. The only call is the one of line 185, the first of the request.
\<close>

definition predict_run :: "env \<Rightarrow> str \<Rightarrow> (exn + str) \<times> nat" where
  "predict_run env message =
     (case gather_evidence env message of
        Inl e \<Rightarrow> (Inl e, 0)
      | Inr all_evidence \<Rightarrow>
          (case chat_completions_create env 0 model_id
                  [(lit ''system'', system_prompt message all_evidence), (lit ''user'', message)] of
             Inl e \<Rightarrow> (Inl e, 1)
           | Inr choices \<Rightarrow>
               (case first_content choices of
                  Inl e \<Rightarrow> (Inl e, 1)
                | Inr response \<Rightarrow> (Inr (validate_response response), 1))))"

definition predict_try :: "env \<Rightarrow> str \<Rightarrow> exn + str" where
  "predict_try env message = fst (predict_run env message)"

text \<open>
  A handler either returns a JSON object (status 200) or raises \<open>HTTPException\<close>.
  \<^verbatim>\<open>
  except Exception as e:
      raise HTTPException(status_code=500, detail=f"Error generating response: {str(e)}")
  \<close>
\<close>

datatype http_exception = HTTPException (status: nat) (detail: str)

definition predict :: "env \<Rightarrow> str \<Rightarrow> http_exception + pyval" where
  "predict env message =
     (case predict_try env message of
        Inl e \<Rightarrow> Inl (HTTPException 500 (lit ''Error generating response: '' @ exn_str e))
      | Inr response \<Rightarrow> Inr (PDict [(lit ''response'', PStr response)]))"


section \<open>Signup and login\<close>

text \<open>
  \<open>password.encode()\<close> is the UTF-8 encoding of a string, and \<open>sqlite3\<close> encodes every
  string that it binds to a \<open>?\<close> of a statement in the same way. A string that holds a
  surrogate code point, U+D800 to U+DFFF, has no encoding: both raise
  \<open>UnicodeEncodeError\<close>. A byte is a natural number below 256.
\<close>

type_synonym bytes = "nat list"

definition encodable :: "str \<Rightarrow> bool" where
  "encodable s = list_all (\<lambda>c. \<not> (0xD800 \<le> c \<and> c \<le> 0xDFFF)) s"

definition utf8_char :: "nat \<Rightarrow> bytes" where
  "utf8_char c =
     (if c < 0x80 then [c]
      else if c < 0x800 then [0xC0 + c div 0x40, 0x80 + c mod 0x40]
      else if c < 0x10000 then [0xE0 + c div 0x1000, 0x80 + c div 0x40 mod 0x40, 0x80 + c mod 0x40]
      else [0xF0 + c div 0x40000, 0x80 + c div 0x1000 mod 0x40, 0x80 + c div 0x40 mod 0x40,
            0x80 + c mod 0x40])"

text \<open>
  The exceptions that the calls of \<open>signup\<close> and \<open>login\<close> raise, by class:
  \<open>UnicodeEncodeError\<close>, and \<open>sqlite3.OperationalError\<close> and \<open>sqlite3.IntegrityError\<close>
  from the statements. Neither handler looks at the text of an exception.
\<close>

datatype error_class = UnicodeEncodeError | OperationalError | IntegrityError

definition str_encode :: "str \<Rightarrow> error_class + bytes" where
  "str_encode s = (if encodable s then Inr (concat (map utf8_char s)) else Inl UnicodeEncodeError)"

text \<open>\<open>hexdigest()\<close>: two lower-case hexadecimal digits for every byte of a digest.\<close>

definition hex_digit :: "nat \<Rightarrow> nat" where
  "hex_digit n = (if n < 10 then 0x30 + n else 0x57 + n)"

definition hexdigest :: "bytes \<Rightarrow> str" where
  "hexdigest digest = concat (map (\<lambda>b. [hex_digit (b div 16 mod 16), hex_digit (b mod 16)]) digest)"

text \<open>
  \<^verbatim>\<open>
  def hash_password(password):
      return hashlib.sha256(password.encode()).hexdigest()
  \<close>
  \<open>hashlib\<close> is not part of this program: \<open>sha256\<close>, the function from the bytes hashed
  to the bytes of their SHA-256 digest, is a parameter.
\<close>

definition hash_password :: "(bytes \<Rightarrow> bytes) \<Rightarrow> str \<Rightarrow> error_class + str" where
  "hash_password sha256 password =
     (case str_encode password of
        Inl e \<Rightarrow> Inl e
      | Inr data \<Rightarrow> Inr (hexdigest (sha256 data)))"

text \<open>
  The table \<open>users(id INTEGER PRIMARY KEY AUTOINCREMENT, name TEXT, email TEXT UNIQUE,
  password_hash TEXT)\<close>: its rows in insertion order, and the largest id ever given
  (SQLite's \<open>sqlite_sequence\<close>). An id is a signed 64-bit integer: the largest one is
  \<open>MAX_ROWID\<close>. The three text columns of a row hold strings, as in every row that
  \<open>signup\<close> writes. Failures of the disk and the limits of memory and of the length of
  a string in SQLite are outside the model.
\<close>

record user =
  row_id :: nat
  row_name :: str
  row_email :: str
  row_password_hash :: str

record db =
  users :: "user list"
  seq :: nat

definition MAX_ROWID :: nat where
  "MAX_ROWID = 9223372036854775807"

definition largest_rowid :: "db \<Rightarrow> nat" where
  "largest_rowid d = fold max (map row_id (users d)) (seq d)"

text \<open>
  \<open>INSERT INTO users (name, email, password_hash) VALUES (?, ?, ?)\<close> followed by
  \<open>conn.commit()\<close>. The three strings are bound first, which raises
  \<open>UnicodeEncodeError\<close> when one of them cannot be encoded. The statement then takes the
  new id, one more than the largest id ever given, and fails with \<open>OperationalError\<close>
  (database or disk is full) when that one is \<open>MAX_ROWID\<close>; after that the \<open>UNIQUE\<close>
  constraint on \<open>email\<close> rejects the row with \<open>IntegrityError\<close>. A statement that
  fails leaves the table as it was.
\<close>

definition insert_user :: "db \<Rightarrow> str \<Rightarrow> str \<Rightarrow> str \<Rightarrow> error_class + db" where
  "insert_user d name email password_hash =
     (if \<not> (encodable name \<and> encodable email \<and> encodable password_hash)
      then Inl UnicodeEncodeError
      else if MAX_ROWID \<le> largest_rowid d then Inl OperationalError
      else if email \<in> set (map row_email (users d)) then Inl IntegrityError
      else Inr \<lparr>users = users d @
                 [\<lparr>row_id = Suc (largest_rowid d), row_name = name, row_email = email,
                   row_password_hash = password_hash\<rparr>],
               seq = Suc (largest_rowid d)\<rparr>)"

text \<open>
  \<^verbatim>\<open>
  async def signup(name, email, password):
      try:
          cursor.execute("INSERT INTO users ...", (name, email, hash_password(password)))
          conn.commit()
          return {"success": True}
      except sqlite3.IntegrityError:
          raise HTTPException(status_code=400, detail="Email already exists")
  \<close>
  \<open>signup_try\<close> is the body of the \<open>try\<close>: the exception it raises, or the table
  after the insertion. The handler gives its outcome and the table after the request.
  Its outcome is \<open>Inr (Inr v)\<close> when it returns \<open>v\<close>, \<open>Inr (Inl h)\<close> when it raises the
  \<open>HTTPException\<close> \<open>h\<close>, and \<open>Inl c\<close> when an exception of class \<open>c\<close> leaves it
  uncaught: only \<open>IntegrityError\<close> is caught.
\<close>

definition success :: pyval where
  "success = PDict [(lit ''success'', PBool True)]"

definition signup_try ::
  "(bytes \<Rightarrow> bytes) \<Rightarrow> db \<Rightarrow> str \<Rightarrow> str \<Rightarrow> str \<Rightarrow> error_class + db" where
  "signup_try sha256 d name email password =
     (case hash_password sha256 password of
        Inl e \<Rightarrow> Inl e
      | Inr password_hash \<Rightarrow> insert_user d name email password_hash)"

definition signup ::
  "(bytes \<Rightarrow> bytes) \<Rightarrow> db \<Rightarrow> str \<Rightarrow> str \<Rightarrow> str \<Rightarrow>
     (error_class + http_exception + pyval) \<times> db" where
  "signup sha256 d name email password =
     (case signup_try sha256 d name email password of
        Inr d' \<Rightarrow> (Inr (Inr success), d')
      | Inl e \<Rightarrow>
          if e = IntegrityError
          then (Inr (Inl (HTTPException 400 (lit ''Email already exists''))), d)
          else (Inl e, d))"




section \<open>Example worlds\<close>

text \<open>
  Worlds at which the theorems below are instantiated. In \<open>offline\<close> every HTTP
  request fails with a network error and the inference endpoint behaves as \<open>chat\<close>;
  \<open>replying reply\<close> is an endpoint that answers every call with one choice whose
  content is \<open>reply\<close>, \<open>unavailable\<close> one that raises at every call, and \<open>flaky\<close> one
  that raises at the first call of a request and answers \<open>REAL\<close> from the second call
  on. In \<open>numeric_extract\<close> every HTTP request is answered with status 200 and the JSON
  object \<open>{"extract": 5}\<close>. \<open>tagged\<close> stands in for SHA-256 where an instance needs a
  digest function.
\<close>

definition offline ::
  "(nat \<Rightarrow> str \<Rightarrow> (str \<times> str) list \<Rightarrow> exn + str option list) \<Rightarrow> env" where
  "offline chat =
     \<lparr>requests_get = (\<lambda>url. Inl (Exn ''ConnectionError'' (lit ''Network is unreachable''))),
      chat_completions_create = chat,
      NEWS_API_KEY = lit ''news-key'',
      GNEWS_API_KEY = lit ''gnews-key'',
      format_value = (\<lambda>v. type_name v)\<rparr>"

definition replying ::
  "str \<Rightarrow> nat \<Rightarrow> str \<Rightarrow> (str \<times> str) list \<Rightarrow> exn + str option list" where
  "replying reply n model messages = Inr [Some reply]"

definition unavailable :: "nat \<Rightarrow> str \<Rightarrow> (str \<times> str) list \<Rightarrow> exn + str option list" where
  "unavailable n model messages = Inl (Exn ''HfHubHTTPError'' (lit ''503 Service Unavailable''))"

definition flaky :: "nat \<Rightarrow> str \<Rightarrow> (str \<times> str) list \<Rightarrow> exn + str option list" where
  "flaky n model messages =
     (if n = 0 then Inl (Exn ''HfHubHTTPError'' (lit ''503 Service Unavailable''))
      else Inr [Some (lit ''REAL'')])"

definition numeric_extract :: env where
  "numeric_extract =
     \<lparr>requests_get = (\<lambda>url. Inr (Response 200 (Inr (PDict [(lit ''extract'', PInt 5)])))),
      chat_completions_create = replying (lit ''REAL''),
      NEWS_API_KEY = lit ''news-key'',
      GNEWS_API_KEY = lit ''gnews-key'',
      format_value = (\<lambda>v. type_name v)\<rparr>"

definition tagged :: "bytes \<Rightarrow> bytes" where
  "tagged data = 0x2A # data"


section \<open>Properties of the claim extractor\<close>

subsection \<open>Words, joining and trimming\<close>

lemma split_from_nonempty: "w \<in> set (split_from cur s) \<Longrightarrow> w \<noteq> []"
  by (induction cur s rule: split_from.induct) (auto split: if_splits)

lemma split_from_nospace:
  "w \<in> set (split_from cur s) \<Longrightarrow> \<forall>c\<in>set cur. \<not> is_space c \<Longrightarrow> c \<in> set w \<Longrightarrow> \<not> is_space c"
  by (induction cur s arbitrary: w rule: split_from.induct) (auto split: if_splits)

lemma concat_split_from: "concat (split_from cur s) = cur @ filter (\<lambda>c. \<not> is_space c) s"
  by (induction cur s rule: split_from.induct) auto

lemma str_split_word: "w \<in> set (str_split text) \<Longrightarrow> w \<noteq> [] \<and> (\<forall>c\<in>set w. \<not> is_space c)"
  unfolding str_split_def using split_from_nonempty split_from_nospace by fastforce

lemma concat_str_split: "concat (str_split text) = filter (\<lambda>c. \<not> is_space c) text"
  by (simp add: str_split_def concat_split_from)

lemma str_split_Nil: "str_split [] = []"
  by (simp add: str_split_def)

lemma hd_str_join: "ws \<noteq> [] \<Longrightarrow> hd ws \<noteq> [] \<Longrightarrow> hd (str_join sep ws) = hd (hd ws)"
  by (induction sep ws rule: str_join.induct) auto

lemma str_join_Nil_iff: "\<forall>w\<in>set ws. w \<noteq> [] \<Longrightarrow> str_join sep ws = [] \<longleftrightarrow> ws = []"
  by (induction sep ws rule: str_join.induct) auto

lemma last_str_join:
  "ws \<noteq> [] \<Longrightarrow> \<forall>w\<in>set ws. w \<noteq> [] \<Longrightarrow> last (str_join sep ws) = last (last ws)"
  by (induction sep ws rule: str_join.induct) (auto simp: str_join_Nil_iff)

lemma rev_dropWhile_rev_id: "s \<noteq> [] \<Longrightarrow> \<not> P (last s) \<Longrightarrow> rev (dropWhile P (rev s)) = s"
  by (cases s rule: rev_cases) auto

lemma dropWhile_id: "s \<noteq> [] \<Longrightarrow> \<not> P (hd s) \<Longrightarrow> dropWhile P s = s"
  by (cases s) auto

lemma str_strip_chars_id:
  "s \<noteq> [] \<Longrightarrow> hd s \<notin> set chars \<Longrightarrow> last s \<notin> set chars \<Longrightarrow> str_strip_chars chars s = s"
  by (simp add: str_strip_chars_def str_lstrip_chars_def str_rstrip_chars_def
      dropWhile_id rev_dropWhile_rev_id)

lemma rev_dropWhile_rev_prefix: "prefix (rev (dropWhile P (rev s))) s"
proof -
  have "rev s = takeWhile P (rev s) @ dropWhile P (rev s)" by simp
  then have "s = rev (dropWhile P (rev s)) @ rev (takeWhile P (rev s))"
    by (metis rev_append rev_rev_ident)
  then show ?thesis by (metis prefixI)
qed

lemma trimmed_ends:
  assumes "r = rev (dropWhile P (rev (dropWhile P s)))" and "r \<noteq> []"
  shows "\<not> P (hd r) \<and> \<not> P (last r)"
proof -
  let ?t = "dropWhile P s"
  have pre: "prefix r ?t" using assms(1) rev_dropWhile_rev_prefix by metis
  have "?t \<noteq> []"
  proof
    assume "?t = []"
    with pre have "r = []" by simp
    with assms(2) show False by simp
  qed
  then have "\<not> P (hd ?t)" by (rule hd_dropWhile)
  moreover have "hd r = hd ?t" using pre assms(2) by (auto simp: prefix_def)
  moreover have "dropWhile P (rev ?t) \<noteq> []" using assms by auto
  then have "\<not> P (hd (dropWhile P (rev ?t)))" by (rule hd_dropWhile)
  then have "\<not> P (last r)" using assms by (simp add: last_rev)
  ultimately show ?thesis by simp
qed

lemma str_strip_chars_ends:
  "str_strip_chars chars s \<noteq> [] \<Longrightarrow>
     hd (str_strip_chars chars s) \<notin> set chars \<and> last (str_strip_chars chars s) \<notin> set chars"
  using trimmed_ends [of "str_strip_chars chars s" "\<lambda>c. c \<in> set chars" s]
  by (simp add: str_strip_chars_def str_lstrip_chars_def str_rstrip_chars_def)

lemma space_is_space: "is_space 32" by (simp add: is_space_def)

lemma set_lit_strip: "set (lit '' .,'') = {32, 46, 44}"
  by (auto simp: lit_def)

subsection \<open>Claim C3\<close>

text \<open>
  Claim C3, as the code has it. The claim extractor is a total function. A message of
  fewer than 3 words is returned trimmed, at both ends, of the characters space, \<open>.\<close>
  and \<open>,\<close>. A message of 3 or more words gives its first 8 words joined by single
  spaces and trimmed in the same way, at both ends; this is exactly the joined words
  when the first word does not begin, and the last of the words taken does not end, with
  \<open>.\<close> or \<open>,\<close>. The result never begins or ends with one of the three trimmed
  characters, and the empty message gives the empty claim.
\<close>

theorem extract_main_claim_cases:
  "(length (str_split text) < 3 \<longrightarrow>
      extract_main_claim text = str_strip_chars (lit '' .,'') text) \<and>
   (3 \<le> length (str_split text) \<longrightarrow>
      extract_main_claim text =
        str_strip_chars (lit '' .,'') (str_join (lit '' '') (take 8 (str_split text)))) \<and>
   (3 \<le> length (str_split text) \<and>
    hd (hd (str_split text)) \<notin> set (lit ''.,'') \<and>
    last (last (take 8 (str_split text))) \<notin> set (lit ''.,'') \<longrightarrow>
      extract_main_claim text = str_join (lit '' '') (take 8 (str_split text))) \<and>
   (extract_main_claim text \<noteq> [] \<longrightarrow>
      hd (extract_main_claim text) \<notin> set (lit '' .,'') \<and>
      last (extract_main_claim text) \<notin> set (lit '' .,'')) \<and>
   extract_main_claim [] = []"
proof (intro conjI impI)
  show "extract_main_claim [] = []"
    by (simp add: extract_main_claim_def str_split_Nil str_strip_chars_def
        str_lstrip_chars_def str_rstrip_chars_def)
next
  assume "extract_main_claim text \<noteq> []"
  then show "hd (extract_main_claim text) \<notin> set (lit '' .,'')"
    and "last (extract_main_claim text) \<notin> set (lit '' .,'')"
    using str_strip_chars_ends unfolding extract_main_claim_def Let_def by metis+
next
  assume a: "3 \<le> length (str_split text) \<and>
    hd (hd (str_split text)) \<notin> set (lit ''.,'') \<and>
    last (last (take 8 (str_split text))) \<notin> set (lit ''.,'')"
  let ?ws = "take 8 (str_split text)"
  let ?j = "str_join (lit '' '') ?ws"
  have ne: "?ws \<noteq> []" using a by auto
  have words: "\<forall>w\<in>set ?ws. w \<noteq> [] \<and> (\<forall>c\<in>set w. \<not> is_space c)"
    using str_split_word by (meson in_set_takeD)
  have hdw: "hd ?ws = hd (str_split text)" using a by (cases "str_split text") auto
  have "hd ?ws \<in> set ?ws" "last ?ws \<in> set ?ws"
    using ne hd_in_set last_in_set by blast+
  then have h1: "hd ?ws \<noteq> []" "\<not> is_space (hd (hd ?ws))" "\<not> is_space (last (last ?ws))"
    using words by auto
  have jne: "?j \<noteq> []" using words ne by (simp add: str_join_Nil_iff)
  have "hd ?j = hd (hd ?ws)" using ne h1 by (simp add: hd_str_join)
  moreover have "last ?j = last (last ?ws)" using ne words by (simp add: last_str_join)
  ultimately have "hd ?j \<notin> set (lit '' .,'')" "last ?j \<notin> set (lit '' .,'')"
    using a h1 hdw space_is_space by (auto simp: lit_def)
  with jne have "str_strip_chars (lit '' .,'') ?j = ?j" by (rule str_strip_chars_id)
  then show "extract_main_claim text = ?j"
    using a by (simp add: extract_main_claim_def)
qed (simp_all add: extract_main_claim_def)


lemmas str_eval = lit_def is_space_def str_split_def str_strip_chars_def str_lstrip_chars_def
  str_rstrip_chars_def

text \<open>
  The theorem at a message of two words and at the five-word message of the
  specification's end-to-end example.
\<close>

theorem extract_main_claim_cases_witness:
  "length (str_split (lit ''Fake news.'')) < 3 \<and>
   extract_main_claim (lit ''Fake news.'') = lit ''Fake news'' \<and>
   3 \<le> length (str_split (lit ''The moon landing was faked'')) \<and>
   hd (hd (str_split (lit ''The moon landing was faked''))) \<notin> set (lit ''.,'') \<and>
   last (last (take 8 (str_split (lit ''The moon landing was faked'')))) \<notin> set (lit ''.,'') \<and>
   extract_main_claim (lit ''The moon landing was faked'') = lit ''The moon landing was faked'' \<and>
   hd (extract_main_claim (lit ''The moon landing was faked'')) \<notin> set (lit '' .,'')"
proof -
  let ?x = "lit ''Fake news.''" and ?y = "lit ''The moon landing was faked''"
  have a: "length (str_split ?x) < 3"
    by (simp add: str_eval)
  have b: "str_strip_chars (lit '' .,'') ?x = lit ''Fake news''"
    by (simp add: str_eval)
  have c: "str_split ?y = [lit ''The'', lit ''moon'', lit ''landing'', lit ''was'', lit ''faked'']"
    by (simp add: str_eval)
  have d: "str_join (lit '' '') (take 8 (str_split ?y)) = ?y"
    unfolding c by (simp add: lit_def)
  have e: "?y \<noteq> []" by (simp add: lit_def)
  have h3: "3 \<le> length (str_split ?y)" unfolding c by simp
  have h4: "hd (hd (str_split ?y)) \<notin> set (lit ''.,'')" unfolding c by (simp add: lit_def)
  have h5: "last (last (take 8 (str_split ?y))) \<notin> set (lit ''.,'')"
    unfolding c by (simp add: lit_def)
  have "extract_main_claim ?x = str_strip_chars (lit '' .,'') ?x"
    using extract_main_claim_cases [of ?x] a by blast
  with b have r1: "extract_main_claim ?x = lit ''Fake news''" by simp
  have "extract_main_claim ?y = str_join (lit '' '') (take 8 (str_split ?y))"
    using extract_main_claim_cases [of ?y] h3 h4 h5 by blast
  with d have r2: "extract_main_claim ?y = ?y" by simp
  have r3: "hd (extract_main_claim ?y) \<notin> set (lit '' .,'')"
    using extract_main_claim_cases [of ?y] r2 e by metis
  from a r1 h3 h4 h5 r2 r3 show ?thesis by blast
qed

text \<open>
  Claim C3 as stated trims a message of 3 or more words of trailing \<open>.\<close> and \<open>,\<close>
  only. The code calls \<open>strip(" .,")\<close>, which trims the left end too: the four-word
  message \<open>.NET is a framework\<close> loses its leading dot.
\<close>

theorem extract_main_claim_leading_counterexample:
  "3 \<le> length (str_split (lit ''.NET is a framework'')) \<and>
   str_rstrip_chars (lit ''.,'')
     (str_join (lit '' '') (take 8 (str_split (lit ''.NET is a framework'')))) =
     lit ''.NET is a framework'' \<and>
   extract_main_claim (lit ''.NET is a framework'') = lit ''NET is a framework'' \<and>
   extract_main_claim (lit ''.NET is a framework'') \<noteq>
     str_rstrip_chars (lit ''.,'')
       (str_join (lit '' '') (take 8 (str_split (lit ''.NET is a framework''))))"
  by (simp add: extract_main_claim_def str_eval)


section \<open>Properties of the reply check\<close>

lemma str_contains_sublist: "str_contains sub s \<longleftrightarrow> sublist sub s"
  by (induction s) (simp_all add: sublist_Cons_right)

lemma str_contains_iff: "str_contains sub s \<longleftrightarrow> (\<exists>before after. s = before @ sub @ after)"
  by (simp add: str_contains_sublist sublist_def)

lemma sublist_dropWhile:
  assumes "sub \<noteq> []" and "\<not> P (hd sub)"
  shows "sublist sub (dropWhile P s) \<longleftrightarrow> sublist sub s"
proof (induction s)
  case Nil
  show ?case by simp
next
  case (Cons c cs)
  show ?case
  proof (cases "P c")
    case True
    have "\<not> prefix sub (c # cs)"
      using assms True by (cases sub) auto
    with True Cons show ?thesis by (simp add: sublist_Cons_right)
  next
    case False
    then show ?thesis by simp
  qed
qed

lemma sublist_rev_dropWhile_rev:
  assumes "sub \<noteq> []" and "\<not> P (last sub)"
  shows "sublist sub (rev (dropWhile P (rev s))) \<longleftrightarrow> sublist sub s"
proof -
  have "sublist sub (rev (dropWhile P (rev s))) \<longleftrightarrow> sublist (rev sub) (dropWhile P (rev s))"
    by (simp add: sublist_rev_right)
  also have "\<dots> \<longleftrightarrow> sublist (rev sub) (rev s)"
    using assms by (intro sublist_dropWhile) (simp_all add: hd_rev)
  also have "\<dots> \<longleftrightarrow> sublist sub s" by simp
  finally show ?thesis .
qed

lemma str_contains_strip:
  assumes "sub \<noteq> []" and "\<not> is_space (hd sub)" and "\<not> is_space (last sub)"
  shows "str_contains sub (str_strip s) \<longleftrightarrow> str_contains sub s"
  using assms
  by (simp add: str_contains_sublist str_strip_def sublist_rev_dropWhile_rev sublist_dropWhile)

lemma has_label_iff:
  "has_label s \<longleftrightarrow>
     str_contains (lit ''FAKE'') s \<or> str_contains (lit ''REAL'') s \<or>
     str_contains (lit ''UNCERTAIN'') s"
  by (simp add: has_label_def labels_def)

lemma has_label_strip: "has_label (str_strip s) \<longleftrightarrow> has_label s"
proof -
  have "str_contains (lit ''FAKE'') (str_strip s) \<longleftrightarrow> str_contains (lit ''FAKE'') s"
    by (rule str_contains_strip) (simp_all add: lit_def is_space_def)
  moreover have "str_contains (lit ''REAL'') (str_strip s) \<longleftrightarrow> str_contains (lit ''REAL'') s"
    by (rule str_contains_strip) (simp_all add: lit_def is_space_def)
  moreover have
    "str_contains (lit ''UNCERTAIN'') (str_strip s) \<longleftrightarrow> str_contains (lit ''UNCERTAIN'') s"
    by (rule str_contains_strip) (simp_all add: lit_def is_space_def)
  ultimately show ?thesis by (simp add: has_label_iff)
qed

lemma lit_append: "lit (a @ b) = lit a @ lit b"
  by (simp add: lit_def)

lemma fallback_response_literal:
  "fallback_response =
     lit ''UNCERTAIN: Model could not confidently classify based on current evidence. Please try a different claim.''"
  by (simp add: fallback_response_def lit_def)

lemma has_label_fallback: "has_label fallback_response"
proof -
  have "str_contains (lit ''UNCERTAIN'') (lit ''UNCERTAIN'' @
      lit '': Model could not confidently classify based on current evidence. '' @
      lit ''Please try a different claim.'')"
    unfolding str_contains_sublist by (rule sublist_append_rightI)
  moreover have "fallback_response = lit ''UNCERTAIN'' @
      lit '': Model could not confidently classify based on current evidence. '' @
      lit ''Please try a different claim.''"
    by (simp add: fallback_response_def lit_def)
  ultimately show ?thesis by (simp add: has_label_iff)
qed

lemma has_label_validate: "has_label (validate_response response)"
  by (simp add: validate_response_def has_label_fallback)

lemma predict_of_reply:
  assumes "gather_evidence env message = Inr all_evidence"
    and "chat_completions_create env 0 model_id
           [(lit ''system'', system_prompt message all_evidence), (lit ''user'', message)] =
         Inr (Some reply # others)"
  shows "predict env message =
           Inr (PDict [(lit ''response'', PStr (validate_response (str_strip reply)))])"
  using assms by (simp add: predict_def predict_try_def predict_run_def first_content_def)

lemma predict_Inr:
  assumes "predict env message = Inr body"
  shows "\<exists>response. predict_try env message = Inr response \<and>
           body = PDict [(lit ''response'', PStr response)]"
  using assms by (auto simp: predict_def split: sum.splits)

lemma predict_try_Inr:
  assumes "predict_try env message = Inr response"
  shows "\<exists>r. response = validate_response r"
  using assms by (auto simp: predict_try_def predict_run_def split: sum.splits)

text \<open>
  Claim C1. When the evidence stage has not raised and the model's first choice has the
  text \<open>reply\<close>, the handler returns status 200 with: the trimmed reply, if the reply
  contains one of the literal substrings \<open>FAKE\<close>, \<open>REAL\<close>, \<open>UNCERTAIN\<close>; and otherwise
  the fixed fallback message, verbatim. Trimming removes white space only, so the reply
  contains a label exactly when the trimmed reply does (\<open>has_label_strip\<close>).
\<close>

theorem predict_reply_classified:
  assumes "gather_evidence env message = Inr all_evidence"
    and "chat_completions_create env 0 model_id
           [(lit ''system'', system_prompt message all_evidence), (lit ''user'', message)] =
         Inr (Some reply # others)"
  shows "predict env message =
     Inr (PDict [(lit ''response'', PStr
       (if str_contains (lit ''FAKE'') reply \<or> str_contains (lit ''REAL'') reply \<or>
           str_contains (lit ''UNCERTAIN'') reply
        then str_strip reply
        else lit ''UNCERTAIN: Model could not confidently classify based on current evidence. Please try a different claim.''))])"
proof -
  have "validate_response (str_strip reply) =
      (if has_label reply then str_strip reply else fallback_response)"
    by (simp add: validate_response_def has_label_strip)
  then show ?thesis
    using predict_of_reply [OF assms]
    by (simp add: has_label_iff fallback_response_literal)
qed

text \<open>
  Claim C2. Every response that \<open>/predict\<close> returns with status 200 contains one of the
  three labels; and once the model has replied with a text, whatever the text, the
  handler returns with status 200: a reply without a label is not an error.
\<close>

theorem predict_success_labelled:
  "(predict env message = Inr body \<longrightarrow>
      (\<exists>response. body = PDict [(lit ''response'', PStr response)] \<and>
         (str_contains (lit ''FAKE'') response \<or> str_contains (lit ''REAL'') response \<or>
          str_contains (lit ''UNCERTAIN'') response))) \<and>
   (gather_evidence env message = Inr all_evidence \<and>
    chat_completions_create env 0 model_id
      [(lit ''system'', system_prompt message all_evidence), (lit ''user'', message)] =
      Inr (Some reply # others) \<longrightarrow>
      (\<exists>response. predict env message = Inr (PDict [(lit ''response'', PStr response)])))"
proof (intro conjI impI)
  assume "predict env message = Inr body"
  from predict_Inr [OF this] obtain response where
    r: "predict_try env message = Inr response" "body = PDict [(lit ''response'', PStr response)]"
    by blast
  from predict_try_Inr [OF r(1)] have "has_label response"
    using has_label_validate by auto
  with r(2) show "\<exists>response. body = PDict [(lit ''response'', PStr response)] \<and>
         (str_contains (lit ''FAKE'') response \<or> str_contains (lit ''REAL'') response \<or>
          str_contains (lit ''UNCERTAIN'') response)"
    by (auto simp: has_label_iff)
next
  assume "gather_evidence env message = Inr all_evidence \<and>
    chat_completions_create env 0 model_id
      [(lit ''system'', system_prompt message all_evidence), (lit ''user'', message)] =
      Inr (Some reply # others)"
  then show "\<exists>response. predict env message = Inr (PDict [(lit ''response'', PStr response)])"
    using predict_of_reply by blast
qed

lemma no_capital_no_label:
  assumes "\<forall>c\<in>set reply. \<not> (0x41 \<le> c \<and> c \<le> 0x5A)"
  shows "\<not> has_label reply"
proof -
  have "\<not> str_contains sub reply" if "sub \<noteq> []" "0x41 \<le> hd sub \<and> hd sub \<le> 0x5A" for sub
  proof
    assume "str_contains sub reply"
    then obtain p q where "reply = p @ sub @ q" by (auto simp: str_contains_iff)
    with that(1) have "hd sub \<in> set reply" by (cases sub) auto
    with assms that(2) show False by blast
  qed
  from this [of "lit ''FAKE''"] this [of "lit ''REAL''"] this [of "lit ''UNCERTAIN''"]
  show ?thesis by (simp add: has_label_iff lit_def)
qed


section \<open>Properties of the evidence fetchers\<close>

lemma fetch_wikipedia_summary_returns: "\<exists>v. fetch_wikipedia_summary env query = Inr v"
  by (simp add: fetch_wikipedia_summary_def Let_def split: sum.split option.split)

lemma fetch_newsapi_headlines_returns: "\<exists>s. fetch_newsapi_headlines env query = Inr (PStr s)"
  by (simp add: fetch_newsapi_headlines_def Let_def split: sum.split option.split)

lemma fetch_gnews_headlines_returns: "\<exists>s. fetch_gnews_headlines env query = Inr (PStr s)"
  by (simp add: fetch_gnews_headlines_def Let_def split: sum.split option.split)

lemma fetch_factchecker_rss_empty: "fetch_factchecker_rss query = Inr (PStr [])"
  by (simp add: fetch_factchecker_rss_def)

lemma wikipedia_try_failure:
  "requests_get env url = Inl e \<Longrightarrow> wikipedia_try env url = Inl e"
  "requests_get env url = Inr resp \<Longrightarrow> status_code resp \<noteq> 200 \<Longrightarrow> wikipedia_try env url = Inr None"
  "requests_get env url = Inr resp \<Longrightarrow> status_code resp = 200 \<Longrightarrow> json_body resp = Inl e \<Longrightarrow>
     wikipedia_try env url = Inl e"
  by (simp_all add: wikipedia_try_def)

lemma newsapi_try_failure:
  "requests_get env url = Inl e \<Longrightarrow> newsapi_try env url = Inl e"
  "requests_get env url = Inr resp \<Longrightarrow> status_code resp \<noteq> 200 \<Longrightarrow> newsapi_try env url = Inr None"
  "requests_get env url = Inr resp \<Longrightarrow> status_code resp = 200 \<Longrightarrow> json_body resp = Inl e \<Longrightarrow>
     newsapi_try env url = Inl e"
  by (simp_all add: newsapi_try_def)

lemma gnews_try_failure:
  "requests_get env url = Inl e \<Longrightarrow> gnews_try env url = Inl e"
  "requests_get env url = Inr resp \<Longrightarrow> status_code resp \<noteq> 200 \<Longrightarrow> gnews_try env url = Inr None"
  "requests_get env url = Inr resp \<Longrightarrow> status_code resp = 200 \<Longrightarrow> json_body resp = Inl e \<Longrightarrow>
     gnews_try env url = Inl e"
  by (simp_all add: gnews_try_def)

lemma fetchers_absorb_failures:
  assumes "\<forall>url. (\<exists>e. requests_get env url = Inl e) \<or>
             (\<exists>resp. requests_get env url = Inr resp \<and>
                (status_code resp \<noteq> 200 \<or> (\<exists>e. json_body resp = Inl e)))"
  shows "fetch_wikipedia_summary env query = Inr (PStr [])"
    and "fetch_newsapi_headlines env query = Inr (PStr [])"
    and "fetch_gnews_headlines env query = Inr (PStr [])"
proof -
  have w: "wikipedia_try env url = Inr None \<or> (\<exists>e. wikipedia_try env url = Inl e)" for url
    using assms wikipedia_try_failure by metis
  have n: "newsapi_try env url = Inr None \<or> (\<exists>e. newsapi_try env url = Inl e)" for url
    using assms newsapi_try_failure by metis
  have g: "gnews_try env url = Inr None \<or> (\<exists>e. gnews_try env url = Inl e)" for url
    using assms gnews_try_failure by metis
  show "fetch_wikipedia_summary env query = Inr (PStr [])"
    unfolding fetch_wikipedia_summary_def Let_def
    using w [of "lit ''https://en.wikipedia.org/api/rest_v1/page/summary/'' @
                str_replace_char 0x20 0x5F query"] by auto
  show "fetch_newsapi_headlines env query = Inr (PStr [])"
    unfolding fetch_newsapi_headlines_def Let_def
    using n [of "lit ''https://newsapi.org/v2/everything?q='' @ query @
                lit ''&language=en&pageSize=3&apiKey='' @ NEWS_API_KEY env"] by auto
  show "fetch_gnews_headlines env query = Inr (PStr [])"
    unfolding fetch_gnews_headlines_def Let_def
    using g [of "lit ''https://gnews.io/api/v4/search?q='' @ query @
                lit ''&lang=en&max=3&token='' @ GNEWS_API_KEY env"] by auto
qed

lemma not_object_payload:
  assumes "requests_get env url = Inr (Response 200 (Inr data))" and "\<forall>kvs. data \<noteq> PDict kvs"
  shows "wikipedia_try env url = Inl (Exn ''AttributeError''
           (quoted (type_name data) @ lit '' object has no attribute '' @ quoted (lit ''get'')))"
    and "gnews_try env url = Inl (Exn ''AttributeError''
           (quoted (type_name data) @ lit '' object has no attribute '' @ quoted (lit ''get'')))"
    and "newsapi_try env url = Inr None \<or> (\<exists>e. newsapi_try env url = Inl e)"
  using assms
  by (cases data; simp add: wikipedia_try_def gnews_try_def newsapi_try_def)+

lemma str_strip_Nil: "str_strip [] = []"
  by (simp add: str_strip_def)

lemma gather_evidence_offline: "gather_evidence (offline chat) message = Inr no_evidence"
  by (simp add: gather_evidence_def Let_def fetch_wikipedia_summary_def wikipedia_try_def
      fetch_newsapi_headlines_def newsapi_try_def fetch_gnews_headlines_def gnews_try_def
      fetch_factchecker_rss_def aggregate_evidence_def py_join_def offline_def str_strip_Nil)

text \<open>
  Claim C5 at a payload the code does not absorb. The Wikipedia request is answered
  with status 200 and the JSON object \<open>{"extract": 5}\<close>: \<open>data.get("extract", "")\<close> is
  the number 5, which \<open>fetch_wikipedia_summary\<close>, annotated \<open>-> str\<close>, returns as it
  is instead of the empty string; the \<open>join\<close> of the evidence then raises
  \<open>TypeError\<close> and \<open>/predict\<close> answers with status 500. The lemmas above show the rest
  of the claim: no fetcher raises, and a failed request, a status other than 200, a
  body that is not JSON and a payload that is not a JSON object all give the empty
  string.
\<close>

theorem fetch_wikipedia_summary_numeric_extract:
  "fetch_wikipedia_summary numeric_extract query = Inr (PInt 5) \<and>
   predict numeric_extract message =
     Inl (HTTPException 500
       (lit ''Error generating response: sequence item 0: expected str instance, int found''))"
proof -
  have w: "fetch_wikipedia_summary numeric_extract claim = Inr (PInt 5)" for claim
    by (simp add: fetch_wikipedia_summary_def wikipedia_try_def numeric_extract_def)
  have n: "fetch_newsapi_headlines numeric_extract claim = Inr (PStr [])" for claim
    by (simp add: fetch_newsapi_headlines_def newsapi_try_def numeric_extract_def lit_def)
  have g: "fetch_gnews_headlines numeric_extract claim = Inr (PStr [])" for claim
    by (simp add: fetch_gnews_headlines_def gnews_try_def numeric_extract_def lit_def)
  have "gather_evidence numeric_extract message =
      Inl (Exn ''TypeError'' (lit ''sequence item 0: expected str instance, int found''))"
    by (simp add: gather_evidence_def Let_def w n g fetch_factchecker_rss_def
        aggregate_evidence_def py_join_def lit_def)
  then have "predict numeric_extract message =
     Inl (HTTPException 500
       (lit ''Error generating response: '' @
        lit ''sequence item 0: expected str instance, int found''))"
    by (simp add: predict_def predict_try_def predict_run_def)
  with w show ?thesis by (simp add: lit_def)
qed


section \<open>Properties of the aggregation and of the error boundary\<close>

lemma filter_truthy_PStr:
  "filter truthy (map PStr parts) = map PStr (filter (\<lambda>part. part \<noteq> []) parts)"
  by (induction parts) auto

lemma join_items_PStr: "join_items i (map PStr parts) = Inr parts"
  by (induction parts arbitrary: i) auto

lemma py_join_PStr: "py_join sep (map PStr parts) = Inr (str_join sep parts)"
  by (simp add: py_join_def join_items_PStr)

lemma aggregate_evidence_PStr:
  "aggregate_evidence (map PStr parts) =
     Inr (if str_strip (str_join newline (filter (\<lambda>part. part \<noteq> []) parts)) = []
          then no_evidence
          else str_strip (str_join newline (filter (\<lambda>part. part \<noteq> []) parts)))"
  by (simp add: aggregate_evidence_def filter_truthy_PStr py_join_PStr Let_def)

lemma str_strip_id: "s \<noteq> [] \<Longrightarrow> \<not> is_space (hd s) \<Longrightarrow> \<not> is_space (last s) \<Longrightarrow> str_strip s = s"
  by (simp add: str_strip_def dropWhile_id rev_dropWhile_rev_id)

text \<open>
  Claim C4, as the code has it. The aggregated evidence is a function of the four
  fetcher outputs in their fixed order: the non-empty outputs joined by newlines and
  then trimmed of surrounding white space, or the fixed fallback sentence when nothing
  is left. Four empty outputs give the fallback sentence; and when the joined text
  neither begins nor ends with white space, the evidence is exactly the joined text.
\<close>

theorem aggregate_evidence_strings:
  "aggregate_evidence [PStr wiki, PStr newsapi, PStr gnews, PStr factchecker] =
     Inr (if str_strip (str_join newline
                 (filter (\<lambda>part. part \<noteq> []) [wiki, newsapi, gnews, factchecker])) = []
          then lit ''No relevant evidence found in Wikipedia, news, or fact-checking sources.''
          else str_strip (str_join newline
                 (filter (\<lambda>part. part \<noteq> []) [wiki, newsapi, gnews, factchecker]))) \<and>
   (wiki = [] \<and> newsapi = [] \<and> gnews = [] \<and> factchecker = [] \<longrightarrow>
      aggregate_evidence [PStr wiki, PStr newsapi, PStr gnews, PStr factchecker] =
        Inr (lit ''No relevant evidence found in Wikipedia, news, or fact-checking sources.'')) \<and>
   (str_join newline (filter (\<lambda>part. part \<noteq> []) [wiki, newsapi, gnews, factchecker]) \<noteq> [] \<and>
    \<not> is_space (hd (str_join newline
          (filter (\<lambda>part. part \<noteq> []) [wiki, newsapi, gnews, factchecker]))) \<and>
    \<not> is_space (last (str_join newline
          (filter (\<lambda>part. part \<noteq> []) [wiki, newsapi, gnews, factchecker]))) \<longrightarrow>
      aggregate_evidence [PStr wiki, PStr newsapi, PStr gnews, PStr factchecker] =
        Inr (str_join newline
          (filter (\<lambda>part. part \<noteq> []) [wiki, newsapi, gnews, factchecker])))"
proof -
  let ?parts = "[wiki, newsapi, gnews, factchecker]"
  let ?joined = "str_join newline (filter (\<lambda>part. part \<noteq> []) ?parts)"
  have a: "aggregate_evidence [PStr wiki, PStr newsapi, PStr gnews, PStr factchecker] =
      Inr (if str_strip ?joined = [] then no_evidence else str_strip ?joined)"
    using aggregate_evidence_PStr [of ?parts] by simp
  have b: "no_evidence =
      lit ''No relevant evidence found in Wikipedia, news, or fact-checking sources.''"
    by (simp add: no_evidence_def)
  have c: "str_strip ?joined = ?joined"
    if "?joined \<noteq> [] \<and> \<not> is_space (hd ?joined) \<and> \<not> is_space (last ?joined)"
    using that by (intro str_strip_id) blast+
  have d: "str_strip ?joined = []" if "wiki = [] \<and> newsapi = [] \<and> gnews = [] \<and> factchecker = []"
    using that by (simp add: str_strip_Nil)
  show ?thesis
  proof (intro conjI impI)
    show "aggregate_evidence [PStr wiki, PStr newsapi, PStr gnews, PStr factchecker] =
      Inr (if str_strip ?joined = []
           then lit ''No relevant evidence found in Wikipedia, news, or fact-checking sources.''
           else str_strip ?joined)"
      unfolding a b ..
  next
    assume "wiki = [] \<and> newsapi = [] \<and> gnews = [] \<and> factchecker = []"
    from d [OF this] show
      "aggregate_evidence [PStr wiki, PStr newsapi, PStr gnews, PStr factchecker] =
        Inr (lit ''No relevant evidence found in Wikipedia, news, or fact-checking sources.'')"
      unfolding a b by simp
  next
    assume h: "?joined \<noteq> [] \<and> \<not> is_space (hd ?joined) \<and> \<not> is_space (last ?joined)"
    from c [OF h] h show
      "aggregate_evidence [PStr wiki, PStr newsapi, PStr gnews, PStr factchecker] = Inr ?joined"
      unfolding a by simp
  qed
qed

lemmas str_eval2 = lit_def is_space_def str_strip_def newline_def

text \<open>
  Four empty outputs, and two non-empty outputs out of four.
\<close>

theorem aggregate_evidence_strings_witness:
  "aggregate_evidence [PStr [], PStr [], PStr [], PStr []] =
     Inr (lit ''No relevant evidence found in Wikipedia, news, or fact-checking sources.'') \<and>
   aggregate_evidence [PStr (lit ''Apollo 11 landed in 1969.''), PStr [], PStr (lit ''NASA: Moon''), PStr []] =
     Inr (lit ''Apollo 11 landed in 1969.'' @ newline @ lit ''NASA: Moon'')"
proof -
  let ?w = "lit ''Apollo 11 landed in 1969.''" and ?g = "lit ''NASA: Moon''"
  have j: "str_join newline (filter (\<lambda>part. part \<noteq> []) [?w, [], ?g, []]) = ?w @ newline @ ?g"
    by (simp add: lit_def)
  have h: "?w @ newline @ ?g \<noteq> [] \<and> \<not> is_space (hd (?w @ newline @ ?g)) \<and>
      \<not> is_space (last (?w @ newline @ ?g))"
    by (simp add: str_eval2)
  have "aggregate_evidence [PStr ?w, PStr [], PStr ?g, PStr []] = Inr (?w @ newline @ ?g)"
    using aggregate_evidence_strings [of ?w "[]" ?g "[]"] h unfolding j by blast
  moreover have "aggregate_evidence [PStr [], PStr [], PStr [], PStr []] =
     Inr (lit ''No relevant evidence found in Wikipedia, news, or fact-checking sources.'')"
    using aggregate_evidence_strings [of "[]" "[]" "[]" "[]"] by blast
  ultimately show ?thesis by blast
qed

text \<open>
  Claim C4 as stated gives the newline-joined non-empty outputs whenever one output is
  not empty. The code trims the joined text: a news snippet with an empty description,
  \<open>Moon landing: \<close>, loses its last space, and a single output that is one space
  gives the fallback sentence although not all four outputs are empty.
\<close>

theorem aggregate_evidence_trim_counterexample:
  "aggregate_evidence [PStr [], PStr (lit ''Moon landing: ''), PStr [], PStr []] =
     Inr (lit ''Moon landing:'') \<and>
   str_join newline (filter (\<lambda>part. part \<noteq> []) [[], lit ''Moon landing: '', [], []]) =
     lit ''Moon landing: '' \<and>
   lit ''Moon landing:'' \<noteq> lit ''Moon landing: '' \<and>
   aggregate_evidence [PStr (lit '' ''), PStr [], PStr [], PStr []] =
     Inr (lit ''No relevant evidence found in Wikipedia, news, or fact-checking sources.'')"
  by (simp add: aggregate_evidence_def py_join_def no_evidence_def str_eval2)

lemma predict_try_unfold:
  "predict_try env message =
     (case gather_evidence env message of
        Inl e \<Rightarrow> Inl e
      | Inr all_evidence \<Rightarrow>
          (case chat_completions_create env 0 model_id
                  [(lit ''system'', system_prompt message all_evidence), (lit ''user'', message)] of
             Inl e \<Rightarrow> Inl e
           | Inr choices \<Rightarrow>
               (case first_content choices of
                  Inl e \<Rightarrow> Inl e
                | Inr response \<Rightarrow> Inr (validate_response response))))"
  by (simp add: predict_try_def predict_run_def split: sum.split)

lemma predict_run_calls:
  "snd (predict_run env message) =
     (case gather_evidence env message of Inl e \<Rightarrow> 0 | Inr all_evidence \<Rightarrow> 1)"
  by (simp add: predict_run_def split: sum.split)

lemma predict_first_call_only:
  assumes "requests_get env' = requests_get env"
    and "NEWS_API_KEY env' = NEWS_API_KEY env"
    and "GNEWS_API_KEY env' = GNEWS_API_KEY env"
    and "format_value env' = format_value env"
    and "chat_completions_create env' 0 = chat_completions_create env 0"
  shows "predict env' message = predict env message"
proof -
  have t: "wikipedia_try env' url = wikipedia_try env url"
    "newsapi_try env' url = newsapi_try env url"
    "gnews_try env' url = gnews_try env url" for url
    unfolding wikipedia_try_def newsapi_try_def gnews_try_def assms(1,4) by simp_all
  have f: "fetch_wikipedia_summary env' claim = fetch_wikipedia_summary env claim"
    "fetch_newsapi_headlines env' claim = fetch_newsapi_headlines env claim"
    "fetch_gnews_headlines env' claim = fetch_gnews_headlines env claim" for claim
    by (simp_all add: fetch_wikipedia_summary_def fetch_newsapi_headlines_def
        fetch_gnews_headlines_def t assms(2,3))
  have "gather_evidence env' message = gather_evidence env message"
    unfolding gather_evidence_def f ..
  then show ?thesis
    unfolding predict_def predict_try_unfold assms(5) by simp
qed

text \<open>
  Claim C9. Whatever exception the body of the handler raises, the handler raises
  \<open>HTTPException\<close> with status 500 and the detail \<open>Error generating response: \<close>
  followed by the text of the exception, whatever the class of the exception; this is so
  when the first call of the inference endpoint raises, whatever a further call would
  return, and when its answer has no choice. Every error of \<open>/predict\<close> has this form.
  The failure is not retried: a run calls the endpoint at most once, and the response
  is the same in every world that agrees on the HTTP requests and on the first call of
  the endpoint.
\<close>

theorem predict_exception:
  "(predict_try env message = Inl e \<longrightarrow>
      predict env message =
        Inl (HTTPException 500 (lit ''Error generating response: '' @ exn_str e))) \<and>
   (gather_evidence env message = Inr all_evidence \<and>
    chat_completions_create env 0 model_id
      [(lit ''system'', system_prompt message all_evidence), (lit ''user'', message)] = Inl e \<longrightarrow>
      predict env message =
        Inl (HTTPException 500 (lit ''Error generating response: '' @ exn_str e)) \<and>
      snd (predict_run env message) = 1) \<and>
   (gather_evidence env message = Inr all_evidence \<and>
    chat_completions_create env 0 model_id
      [(lit ''system'', system_prompt message all_evidence), (lit ''user'', message)] = Inr [] \<longrightarrow>
      predict env message =
        Inl (HTTPException 500 (lit ''Error generating response: list index out of range''))) \<and>
   (predict env message = Inl h \<longrightarrow>
      status h = 500 \<and>
      (\<exists>e. predict_try env message = Inl e \<and>
           detail h = lit ''Error generating response: '' @ exn_str e)) \<and>
   snd (predict_run env message) \<le> 1 \<and>
   predict (env\<lparr>chat_completions_create :=
       (\<lambda>n. if n = 0 then chat_completions_create env 0 else again n)\<rparr>) message =
     predict env message"
proof (intro conjI impI)
  assume "predict_try env message = Inl e"
  then show "predict env message =
      Inl (HTTPException 500 (lit ''Error generating response: '' @ exn_str e))"
    by (simp add: predict_def)
next
  assume a: "gather_evidence env message = Inr all_evidence \<and>
    chat_completions_create env 0 model_id
      [(lit ''system'', system_prompt message all_evidence), (lit ''user'', message)] = Inl e"
  then show "predict env message =
      Inl (HTTPException 500 (lit ''Error generating response: '' @ exn_str e))"
    by (simp add: predict_def predict_try_unfold)
  from a show "snd (predict_run env message) = 1"
    by (simp add: predict_run_calls)
next
  assume "gather_evidence env message = Inr all_evidence \<and>
    chat_completions_create env 0 model_id
      [(lit ''system'', system_prompt message all_evidence), (lit ''user'', message)] = Inr []"
  then have "predict env message =
      Inl (HTTPException 500 (lit ''Error generating response: '' @ lit ''list index out of range''))"
    by (simp add: predict_def predict_try_unfold first_content_def)
  then show "predict env message =
      Inl (HTTPException 500 (lit ''Error generating response: list index out of range''))"
    by (simp add: lit_def)
next
  assume "predict env message = Inl h"
  then show "status h = 500" and
    "\<exists>e. predict_try env message = Inl e \<and>
         detail h = lit ''Error generating response: '' @ exn_str e"
    by (auto simp: predict_def split: sum.splits)
next
  show "snd (predict_run env message) \<le> 1"
    by (simp add: predict_run_calls split: sum.split)
next
  show "predict (env\<lparr>chat_completions_create :=
       (\<lambda>n. if n = 0 then chat_completions_create env 0 else again n)\<rparr>) message =
     predict env message"
    by (rule predict_first_call_only) simp_all
qed

text \<open>
  An inference endpoint that answers 503 at the first call and would answer \<open>REAL\<close> at
  a second one, and an endpoint that answers with no choice.
\<close>

theorem predict_exception_witness:
  "predict_try (offline flaky) (lit ''The moon landing was faked'') =
     Inl (Exn ''HfHubHTTPError'' (lit ''503 Service Unavailable'')) \<and>
   chat_completions_create (offline flaky) 1 model_id
     [(lit ''system'', system_prompt (lit ''The moon landing was faked'') no_evidence),
      (lit ''user'', lit ''The moon landing was faked'')] = Inr [Some (lit ''REAL'')] \<and>
   predict (offline flaky) (lit ''The moon landing was faked'') =
     Inl (HTTPException 500 (lit ''Error generating response: 503 Service Unavailable'')) \<and>
   snd (predict_run (offline flaky) (lit ''The moon landing was faked'')) = 1 \<and>
   predict (offline (\<lambda>n model messages. Inr [])) (lit ''The moon landing was faked'') =
     Inl (HTTPException 500 (lit ''Error generating response: list index out of range''))"
proof -
  let ?m = "lit ''The moon landing was faked''"
  let ?e = "Exn ''HfHubHTTPError'' (lit ''503 Service Unavailable'')"
  let ?msgs = "[(lit ''system'', system_prompt ?m no_evidence), (lit ''user'', ?m)]"
  have ev: "gather_evidence (offline chat) ?m = Inr no_evidence" for chat
    by (rule gather_evidence_offline)
  have c: "chat_completions_create (offline flaky) 0 model_id ?msgs = Inl ?e"
    by (simp add: offline_def flaky_def)
  have c1: "chat_completions_create (offline flaky) 1 model_id ?msgs = Inr [Some (lit ''REAL'')]"
    by (simp add: offline_def flaky_def)
  have c0: "chat_completions_create (offline (\<lambda>n model messages. Inr [])) 0 model_id ?msgs = Inr []"
    by (simp add: offline_def)
  have t: "predict_try (offline flaky) ?m = Inl ?e"
    by (simp add: predict_try_unfold ev c)
  have "predict (offline flaky) ?m =
      Inl (HTTPException 500 (lit ''Error generating response: '' @ exn_str ?e)) \<and>
      snd (predict_run (offline flaky) ?m) = 1"
    using predict_exception [of "offline flaky" ?m ?e no_evidence] ev c by blast
  then have p: "predict (offline flaky) ?m =
      Inl (HTTPException 500 (lit ''Error generating response: 503 Service Unavailable''))"
    and n: "snd (predict_run (offline flaky) ?m) = 1"
    by (simp_all add: lit_def)
  have q: "predict (offline (\<lambda>n model messages. Inr [])) ?m =
     Inl (HTTPException 500 (lit ''Error generating response: list index out of range''))"
    using predict_exception [of "offline (\<lambda>n model messages. Inr [])" ?m _ no_evidence] ev c0
    by blast
  from t c1 p n q show ?thesis by blast
qed


section \<open>Instances of the prediction route\<close>

lemma chat_offline_replying:
  "chat_completions_create (offline (replying reply)) n model messages = Inr [Some reply]"
  by (simp add: offline_def replying_def)

text \<open>
  The two end-to-end examples of the specification: a reply without a label is replaced,
  a reply with \<open>FAKE\<close> is returned trimmed.
\<close>

theorem predict_reply_classified_witness:
  "predict (offline (replying (lit ''This is inconclusive based on sources.'')))
       (lit ''The moon landing was faked'') =
     Inr (PDict [(lit ''response'', PStr (lit
       ''UNCERTAIN: Model could not confidently classify based on current evidence. Please try a different claim.''))]) \<and>
   predict (offline (replying (lit '' FAKE: no credible evidence supports this claim. '')))
       (lit ''The moon landing was faked'') =
     Inr (PDict [(lit ''response'', PStr (lit ''FAKE: no credible evidence supports this claim.''))])"
proof -
  let ?m = "lit ''The moon landing was faked''"
  let ?r1 = "lit ''This is inconclusive based on sources.''"
  let ?r2 = "lit '' FAKE: no credible evidence supports this claim. ''"
  have n1: "\<not> (str_contains (lit ''FAKE'') ?r1 \<or> str_contains (lit ''REAL'') ?r1 \<or>
      str_contains (lit ''UNCERTAIN'') ?r1)"
    by (simp add: lit_def)
  have y2: "str_contains (lit ''FAKE'') ?r2"
    by (simp add: lit_def)
  have s2: "str_strip ?r2 = lit ''FAKE: no credible evidence supports this claim.''"
    by (simp add: str_eval2)
  from predict_reply_classified [OF gather_evidence_offline chat_offline_replying, of ?r1 ?m]
    predict_reply_classified [OF gather_evidence_offline chat_offline_replying, of ?r2 ?m]
    n1 y2 s2
  show ?thesis by simp
qed

text \<open>
  A reply without a label: the handler succeeds, with the fallback message, whose label
  is \<open>UNCERTAIN\<close>.
\<close>

theorem predict_success_labelled_witness:
  "predict (offline (replying (lit ''I cannot tell.''))) (lit ''Cats can fly'') =
     Inr (PDict [(lit ''response'', PStr fallback_response)]) \<and>
   str_contains (lit ''UNCERTAIN'') fallback_response"
proof -
  let ?env = "offline (replying (lit ''I cannot tell.''))" and ?m = "lit ''Cats can fly''"
  have p: "predict ?env ?m = Inr (PDict [(lit ''response'', PStr fallback_response)])"
    by (simp add: predict_of_reply [OF gather_evidence_offline chat_offline_replying]
        validate_response_def has_label_iff str_eval2)
  from predict_success_labelled [of ?env ?m "PDict [(lit ''response'', PStr fallback_response)]"] p
  have "str_contains (lit ''FAKE'') fallback_response \<or>
      str_contains (lit ''REAL'') fallback_response \<or>
      str_contains (lit ''UNCERTAIN'') fallback_response"
    by auto
  moreover have "\<not> str_contains (lit ''FAKE'') fallback_response"
    by (simp add: fallback_response_def lit_def)
  moreover have "\<not> str_contains (lit ''REAL'') fallback_response"
    by (simp add: fallback_response_def lit_def)
  ultimately show ?thesis using p by blast
qed

text \<open>
  Claim C10. The label check is plain substring matching on the characters as they
  are, so it is case-sensitive: \<open>label in response\<close> holds exactly when the reply is some
  text, the label, and some text. A reply in which none of the literal substrings
  \<open>FAKE\<close>, \<open>REAL\<close>, \<open>UNCERTAIN\<close> occurs is replaced wholesale by the fallback message,
  even when it states a classification in another case: \<open>fake\<close>, \<open>Real\<close>, \<open>uncertain\<close>,
  \<open>Uncertain: not enough evidence.\<close> and \<open>The claim is fake.\<close> are all replaced, while
  \<open>FAKE\<close> is kept.
\<close>

theorem label_check_case_sensitive:
  "(gather_evidence env message = Inr all_evidence \<and>
    chat_completions_create env 0 model_id
      [(lit ''system'', system_prompt message all_evidence), (lit ''user'', message)] =
      Inr (Some reply # others) \<and>
    \<not> str_contains (lit ''FAKE'') reply \<and> \<not> str_contains (lit ''REAL'') reply \<and>
    \<not> str_contains (lit ''UNCERTAIN'') reply \<longrightarrow>
      predict env message = Inr (PDict [(lit ''response'', PStr fallback_response)])) \<and>
   (str_contains label reply \<longleftrightarrow> (\<exists>before after. reply = before @ label @ after)) \<and>
   fallback_response =
     lit ''UNCERTAIN: Model could not confidently classify based on current evidence. Please try a different claim.'' \<and>
   validate_response (lit ''fake'') = fallback_response \<and>
   validate_response (lit ''Real'') = fallback_response \<and>
   validate_response (lit ''uncertain'') = fallback_response \<and>
   validate_response (lit ''Uncertain: not enough evidence.'') = fallback_response \<and>
   validate_response (lit ''The claim is fake.'') = fallback_response \<and>
   validate_response (lit ''FAKE'') = lit ''FAKE''"
proof (intro conjI impI)
  assume a: "gather_evidence env message = Inr all_evidence \<and>
    chat_completions_create env 0 model_id
      [(lit ''system'', system_prompt message all_evidence), (lit ''user'', message)] =
      Inr (Some reply # others) \<and>
    \<not> str_contains (lit ''FAKE'') reply \<and> \<not> str_contains (lit ''REAL'') reply \<and>
    \<not> str_contains (lit ''UNCERTAIN'') reply"
  then have "\<not> has_label reply" by (simp add: has_label_iff)
  then have "validate_response (str_strip reply) = fallback_response"
    by (simp add: validate_response_def has_label_strip)
  with a show "predict env message = Inr (PDict [(lit ''response'', PStr fallback_response)])"
    using predict_of_reply by metis
next
  show "str_contains label reply \<longleftrightarrow> (\<exists>before after. reply = before @ label @ after)"
    by (rule str_contains_iff)
next
  show "fallback_response =
     lit ''UNCERTAIN: Model could not confidently classify based on current evidence. Please try a different claim.''"
    by (rule fallback_response_literal)
qed (simp_all add: validate_response_def has_label_iff lit_def)

text \<open>
  The reply \<open>Uncertain: not enough evidence.\<close> states a classification and is replaced.
\<close>

theorem label_check_case_sensitive_witness:
  "\<not> str_contains (lit ''FAKE'') (lit ''Uncertain: not enough evidence.'') \<and>
   \<not> str_contains (lit ''REAL'') (lit ''Uncertain: not enough evidence.'') \<and>
   \<not> str_contains (lit ''UNCERTAIN'') (lit ''Uncertain: not enough evidence.'') \<and>
   predict (offline (replying (lit ''Uncertain: not enough evidence.'')))
       (lit ''The moon landing was faked'') =
     Inr (PDict [(lit ''response'', PStr fallback_response)])"
proof -
  let ?r = "lit ''Uncertain: not enough evidence.''" and ?m = "lit ''The moon landing was faked''"
  have l: "\<not> str_contains (lit ''FAKE'') ?r" "\<not> str_contains (lit ''REAL'') ?r"
    "\<not> str_contains (lit ''UNCERTAIN'') ?r"
    by (simp_all add: lit_def)
  from label_check_case_sensitive [of "offline (replying ?r)" ?m no_evidence ?r "[]"]
    gather_evidence_offline [of "replying ?r" ?m] chat_offline_replying [of ?r] l
  show ?thesis by blast
qed


section \<open>Properties of login\<close>

lemma hex_digit_small: "n < 16 \<Longrightarrow> hex_digit n < 0xD800"
  by (simp add: hex_digit_def)

lemma encodable_hexdigest: "encodable (hexdigest digest)"
proof -
  have "c < 0xD800" if "c \<in> set (hexdigest digest)" for c
  proof -
    from that obtain b where "c = hex_digit (b div 16 mod 16) \<or> c = hex_digit (b mod 16)"
      by (auto simp: hexdigest_def)
    moreover have "b div 16 mod 16 < 16" "b mod 16 < 16" by simp_all
    ultimately show ?thesis using hex_digit_small by metis
  qed
  then show ?thesis by (fastforce simp: encodable_def list_all_iff)
qed

lemma hash_password_encodable:
  "encodable password \<Longrightarrow>
     hash_password sha256 password = Inr (hexdigest (sha256 (concat (map utf8_char password))))"
  by (simp add: hash_password_def str_encode_def)

lemma hash_password_surrogate:
  "\<not> encodable password \<Longrightarrow> hash_password sha256 password = Inl UnicodeEncodeError"
  by (simp add: hash_password_def str_encode_def)




lemmas auth_eval = lit_def encodable_def utf8_char_def hexdigest_def hex_digit_def tagged_def




section \<open>Properties of signup\<close>

lemma fold_max_ge: "(a::nat) \<le> fold max xs a \<and> (\<forall>x\<in>set xs. x \<le> fold max xs a)"
proof (induction xs arbitrary: a)
  case Nil
  show ?case by simp
next
  case (Cons y ys)
  from Cons [of "max y a"] show ?case by auto
qed

lemma new_rowid_fresh:
  "Suc (largest_rowid d) \<notin> set (map row_id (users d)) \<and> seq d < Suc (largest_rowid d)"
proof -
  have "\<forall>i\<in>set (map row_id (users d)). i < Suc (largest_rowid d)"
    using fold_max_ge [of "seq d" "map row_id (users d)"]
    by (auto simp: largest_rowid_def less_Suc_eq_le)
  moreover have "seq d < Suc (largest_rowid d)"
    using fold_max_ge [of "seq d" "map row_id (users d)"]
    by (simp add: largest_rowid_def less_Suc_eq_le)
  ultimately show ?thesis by blast
qed

lemma signup_try_encodable:
  assumes "encodable name" and "encodable email" and "encodable password"
    and "largest_rowid d < MAX_ROWID"
  shows "signup_try sha256 d name email password =
    (if email \<in> set (map row_email (users d)) then Inl IntegrityError
     else Inr \<lparr>users = users d @
          [\<lparr>row_id = Suc (largest_rowid d), row_name = name, row_email = email,
            row_password_hash = hexdigest (sha256 (concat (map utf8_char password)))\<rparr>],
        seq = Suc (largest_rowid d)\<rparr>)"
  using assms
  by (simp add: signup_try_def hash_password_encodable insert_user_def encodable_hexdigest)

lemma signup_try_Inr:
  assumes "signup_try sha256 d name email password = Inr d'"
  shows "encodable name \<and> encodable email \<and> encodable password \<and>
    largest_rowid d < MAX_ROWID \<and> email \<notin> set (map row_email (users d)) \<and>
    d' = \<lparr>users = users d @
          [\<lparr>row_id = Suc (largest_rowid d), row_name = name, row_email = email,
            row_password_hash = hexdigest (sha256 (concat (map utf8_char password)))\<rparr>],
        seq = Suc (largest_rowid d)\<rparr>"
proof -
  have p: "encodable password"
    using assms by (cases "encodable password") (simp_all add: signup_try_def hash_password_surrogate)
  then have i: "insert_user d name email (hexdigest (sha256 (concat (map utf8_char password)))) = Inr d'"
    using assms by (simp add: signup_try_def hash_password_encodable)
  then show ?thesis
    using p by (auto simp: insert_user_def split: if_splits)
qed

lemma signup_new:
  assumes "encodable name" and "encodable email" and "encodable password"
    and "largest_rowid d < MAX_ROWID" and "email \<notin> set (map row_email (users d))"
  shows "signup sha256 d name email password =
    (Inr (Inr success),
     \<lparr>users = users d @
        [\<lparr>row_id = Suc (largest_rowid d), row_name = name, row_email = email,
          row_password_hash = hexdigest (sha256 (concat (map utf8_char password)))\<rparr>],
      seq = Suc (largest_rowid d)\<rparr>)"
  using assms by (simp add: signup_def signup_try_encodable)


lemma signup_success:
  assumes "signup sha256 d name email password = (Inr (Inr success), d')"
  shows "encodable name \<and> encodable email \<and> encodable password \<and>
    largest_rowid d < MAX_ROWID \<and> email \<notin> set (map row_email (users d)) \<and>
    d' = \<lparr>users = users d @
          [\<lparr>row_id = Suc (largest_rowid d), row_name = name, row_email = email,
            row_password_hash = hexdigest (sha256 (concat (map utf8_char password)))\<rparr>],
        seq = Suc (largest_rowid d)\<rparr>"
proof (cases "signup_try sha256 d name email password")
  case (Inl e)
  with assms show ?thesis by (simp add: signup_def split: if_splits)
next
  case (Inr d'')
  with assms have "d'' = d'" by (simp add: signup_def)
  with Inr signup_try_Inr show ?thesis by blast
qed






text \<open>
  Claim C8, as the code has it. The hash that signup stores is the hexadecimal SHA-256
  digest of the encoded password and of nothing else: no salt enters it, and two
  successful signups with the same password, on any tables and with any names and
  emails, store the same hash.
\<close>

theorem signup_hash_unsalted:
  "(signup sha256 d name email password = (Inr (Inr success), d') \<longrightarrow>
      (\<exists>u. users d' = users d @ [u] \<and>
         row_password_hash u = hexdigest (sha256 (concat (map utf8_char password))))) \<and>
   (signup sha256 d name email password = (Inr (Inr success), d') \<and>
    signup sha256 e name2 email2 password = (Inr (Inr success), e') \<longrightarrow>
      row_password_hash (last (users d')) = row_password_hash (last (users e')))"
proof (intro conjI impI)
  assume "signup sha256 d name email password = (Inr (Inr success), d')"
  from signup_success [OF this]
  show "\<exists>u. users d' = users d @ [u] \<and>
         row_password_hash u = hexdigest (sha256 (concat (map utf8_char password)))"
    by simp
next
  assume a: "signup sha256 d name email password = (Inr (Inr success), d') \<and>
    signup sha256 e name2 email2 password = (Inr (Inr success), e')"
  then have "row_password_hash (last (users d')) =
      hexdigest (sha256 (concat (map utf8_char password)))"
    using signup_success [of sha256 d name email password d'] by simp
  moreover from a
  have "row_password_hash (last (users e')) =
      hexdigest (sha256 (concat (map utf8_char password)))"
    using signup_success [of sha256 e name2 email2 password e'] by simp
  ultimately show "row_password_hash (last (users d')) = row_password_hash (last (users e'))"
    by simp
qed

text \<open>
  Two users with the same password.
\<close>

theorem signup_hash_unsalted_witness:
  "signup tagged \<lparr>users = [], seq = 0\<rparr> (lit ''Ann'') (lit ''ann@example.com'') (lit ''hunter2'') =
     (Inr (Inr success),
      \<lparr>users = [\<lparr>row_id = 1, row_name = lit ''Ann'', row_email = lit ''ann@example.com'',
                 row_password_hash = lit ''2a68756e74657232''\<rparr>], seq = 1\<rparr>) \<and>
   signup tagged \<lparr>users = [], seq = 7\<rparr> (lit ''Bob'') (lit ''bob@example.com'') (lit ''hunter2'') =
     (Inr (Inr success),
      \<lparr>users = [\<lparr>row_id = 8, row_name = lit ''Bob'', row_email = lit ''bob@example.com'',
                 row_password_hash = lit ''2a68756e74657232''\<rparr>], seq = 8\<rparr>) \<and>
   row_password_hash (last (users
      \<lparr>users = [\<lparr>row_id = 1, row_name = lit ''Ann'', row_email = lit ''ann@example.com'',
                 row_password_hash = lit ''2a68756e74657232''\<rparr>], seq = 1\<rparr>)) =
   row_password_hash (last (users
      \<lparr>users = [\<lparr>row_id = 8, row_name = lit ''Bob'', row_email = lit ''bob@example.com'',
                 row_password_hash = lit ''2a68756e74657232''\<rparr>], seq = 8\<rparr>))"
proof -
  let ?a = "\<lparr>users = [\<lparr>row_id = 1, row_name = lit ''Ann'', row_email = lit ''ann@example.com'',
                 row_password_hash = lit ''2a68756e74657232''\<rparr>], seq = 1\<rparr>"
  let ?b = "\<lparr>users = [\<lparr>row_id = 8, row_name = lit ''Bob'', row_email = lit ''bob@example.com'',
                 row_password_hash = lit ''2a68756e74657232''\<rparr>], seq = 8\<rparr>"
  have e: "encodable (lit ''Ann'')" "encodable (lit ''Bob'')" "encodable (lit ''ann@example.com'')"
    "encodable (lit ''bob@example.com'')" "encodable (lit ''hunter2'')"
    by (simp_all add: lit_def encodable_def)
  have h: "hexdigest (tagged (concat (map utf8_char (lit ''hunter2'')))) = lit ''2a68756e74657232''"
    by (simp add: auth_eval)
  have 1: "signup tagged \<lparr>users = [], seq = 0\<rparr> (lit ''Ann'') (lit ''ann@example.com'')
      (lit ''hunter2'') = (Inr (Inr success), ?a)"
    by (simp add: signup_new e h largest_rowid_def MAX_ROWID_def)
  have 2: "signup tagged \<lparr>users = [], seq = 7\<rparr> (lit ''Bob'') (lit ''bob@example.com'')
      (lit ''hunter2'') = (Inr (Inr success), ?b)"
    by (simp add: signup_new e h largest_rowid_def MAX_ROWID_def)
  from signup_hash_unsalted [of tagged "\<lparr>users = [], seq = 0\<rparr>" "lit ''Ann''"
      "lit ''ann@example.com''" "lit ''hunter2''" ?a "\<lparr>users = [], seq = 7\<rparr>" "lit ''Bob''"
      "lit ''bob@example.com''" ?b] 1 2
  have "row_password_hash (last (users ?a)) = row_password_hash (last (users ?b))" by blast
  with 1 2 show ?thesis by blast
qed

text \<open>
  Claim C8 as stated has the stored hashes of two signups with the same password
  differ. For every digest function, the rows of two users who sign up with the
  password \<open>hunter2\<close> hold the same hash.
\<close>

theorem signup_same_password_counterexample:
  "\<forall>sha256.
     users (snd (signup sha256
       (snd (signup sha256 \<lparr>users = [], seq = 0\<rparr>
          (lit ''Ann'') (lit ''ann@example.com'') (lit ''hunter2'')))
       (lit ''Bob'') (lit ''bob@example.com'') (lit ''hunter2''))) =
     [\<lparr>row_id = 1, row_name = lit ''Ann'', row_email = lit ''ann@example.com'',
       row_password_hash = hexdigest (sha256 (lit ''hunter2''))\<rparr>,
      \<lparr>row_id = 2, row_name = lit ''Bob'', row_email = lit ''bob@example.com'',
       row_password_hash = hexdigest (sha256 (lit ''hunter2''))\<rparr>]"
proof
  fix sha256 :: "bytes \<Rightarrow> bytes"
  have e: "encodable (lit ''Ann'')" "encodable (lit ''Bob'')" "encodable (lit ''ann@example.com'')"
    "encodable (lit ''bob@example.com'')" "encodable (lit ''hunter2'')"
    by (simp_all add: lit_def encodable_def)
  have u: "concat (map utf8_char (lit ''hunter2'')) = lit ''hunter2''"
    by (simp add: lit_def utf8_char_def)
  have n: "lit ''bob@example.com'' \<noteq> lit ''ann@example.com''"
    by (simp add: lit_def)
  have 1: "signup sha256 \<lparr>users = [], seq = 0\<rparr> (lit ''Ann'') (lit ''ann@example.com'')
      (lit ''hunter2'') =
      (Inr (Inr success),
       \<lparr>users = [\<lparr>row_id = 1, row_name = lit ''Ann'', row_email = lit ''ann@example.com'',
                  row_password_hash = hexdigest (sha256 (lit ''hunter2''))\<rparr>], seq = 1\<rparr>)"
    by (simp add: signup_new e u largest_rowid_def MAX_ROWID_def)
  show "users (snd (signup sha256
       (snd (signup sha256 \<lparr>users = [], seq = 0\<rparr>
          (lit ''Ann'') (lit ''ann@example.com'') (lit ''hunter2'')))
       (lit ''Bob'') (lit ''bob@example.com'') (lit ''hunter2''))) =
     [\<lparr>row_id = 1, row_name = lit ''Ann'', row_email = lit ''ann@example.com'',
       row_password_hash = hexdigest (sha256 (lit ''hunter2''))\<rparr>,
      \<lparr>row_id = 2, row_name = lit ''Bob'', row_email = lit ''bob@example.com'',
       row_password_hash = hexdigest (sha256 (lit ''hunter2''))\<rparr>]"
    unfolding 1 by (simp add: signup_new e u n largest_rowid_def MAX_ROWID_def)
qed

end
